theory Spec2Isabelle
  imports Main "HOL-Library.State_Monad"
begin

section \<open>The templates / template-parts list screen\<close>

text \<open>
  A shallow embedding of
  \<^verbatim>\<open>packages/edit-site/src/components/page-templates-template-parts/index.js\<close>.
  The React component is modelled by the pure computations it memoises (the default
  view, the author enumeration, the field descriptors, the properties handed to the
  data-view component) and by its handlers, which are state transformers on the view
  state and on the list of locations pushed to the router history. The operations
  that touch a fetched record are also given on references into a store of record
  objects, as computations in the state monad of that store.
\<close>

subsection \<open>Imported constants\<close>

text \<open>
  The values of the names imported from \<^verbatim>\<open>../../utils/constants\<close> are not part of
  this file. They are taken as a parameter: every definition below that reads one of
  them receives the record \<open>c\<close> of their values.
\<close>

record constants =
  TEMPLATE_POST_TYPE :: string
  TEMPLATE_PART_POST_TYPE :: string
  ENUMERATION_TYPE :: string
  OPERATOR_IS_ANY :: string
  LAYOUT_GRID :: string
  LAYOUT_TABLE :: string
  LAYOUT_LIST :: string

text \<open>A sample assignment of the constants, used to evaluate the model on concrete inputs.\<close>

definition sample_constants :: constants where
  "sample_constants =
     \<lparr>TEMPLATE_POST_TYPE = ''wp_template'',
      TEMPLATE_PART_POST_TYPE = ''wp_template_part'',
      ENUMERATION_TYPE = ''enumeration'',
      OPERATOR_IS_ANY = ''isAny'',
      LAYOUT_GRID = ''grid'',
      LAYOUT_TABLE = ''table'',
      LAYOUT_LIST = ''list''\<rparr>"

subsection \<open>Records supplied by the data-fetching hook\<close>

text \<open>
  A template or template part as this file reads it: \<open>id\<close>, \<open>type\<close>,
  \<open>title?.rendered\<close> (the optional chaining gives \<open>undefined\<close>, here \<open>None\<close>,
  when there is no title), \<open>description\<close>, \<open>content.raw\<close> and \<open>author_text\<close>.
\<close>

record template =
  id_t :: string
  type_t :: string
  title_rendered :: "string option"
  description :: string
  content_raw :: string
  author_text :: string

subsection \<open>The author enumeration\<close>

text \<open>
  A JavaScript \<open>Set\<close> keeps its elements in insertion order and \<open>add\<close> leaves the
  set as it is when the element is already there. It is modelled by the list of its
  elements in insertion order.
\<close>

definition Set_add :: "'a list \<Rightarrow> 'a \<Rightarrow> 'a list" where
  "Set_add s x = (if x \<in> set s then s else s @ [x])"

record author_element =
  value_a :: string
  label :: string

definition EMPTY_ARRAY :: "'a list" where
  "EMPTY_ARRAY = []"

text \<open>
  \<^verbatim>\<open>records.forEach( ( template ) => { authorsSet.add( template.author_text ); } )\<close>
  starting from the empty set.
\<close>

definition authorsSet :: "template list \<Rightarrow> string list" where
  "authorsSet records = foldl (\<lambda>s template. Set_add s (author_text template)) [] records"

text \<open>
  The memoised \<open>authors\<close>. The argument is \<open>None\<close> while the hook has delivered no
  records (\<open>! records\<close> holds).
\<close>

definition authors :: "template list option \<Rightarrow> author_element list" where
  "authors records =
     (case records of
        None \<Rightarrow> EMPTY_ARRAY
      | Some rs \<Rightarrow> map (\<lambda>author. \<lparr>value_a = author, label = author\<rparr>) (authorsSet rs))"

subsection \<open>The view state\<close>

text \<open>
  The per-layout display configuration. Each property may be absent from the object.
\<close>

record layout_config =
  primaryField :: "string option"
  mediaField :: "string option"
  columnFields :: "string list option"

text \<open>
  \<open>defaultConfigPerViewType\<close> is an object literal with the computed keys
  \<open>[ LAYOUT_TABLE ]\<close>, \<open>[ LAYOUT_GRID ]\<close>, \<open>[ LAYOUT_LIST ]\<close>, in this order (a later
  key overrides an equal earlier one). The map below holds the object's own
  properties; its prototype is \<open>Object.prototype\<close>.
\<close>

definition defaultConfigPerViewType :: "constants \<Rightarrow> string \<rightharpoonup> layout_config" where
  "defaultConfigPerViewType c =
     [LAYOUT_TABLE c \<mapsto>
        \<lparr>primaryField = Some ''title'', mediaField = None, columnFields = None\<rparr>,
      LAYOUT_GRID c \<mapsto>
        \<lparr>primaryField = Some ''title'', mediaField = Some ''preview'',
         columnFields = Some [''description'']\<rparr>,
      LAYOUT_LIST c \<mapsto>
        \<lparr>primaryField = Some ''title'', mediaField = Some ''preview'', columnFields = None\<rparr>]"

text \<open>
  The names of the properties of \<open>Object.prototype\<close> (ECMAScript, with its annex B).
  Every object literal inherits them.
\<close>

definition Object_prototype_keys :: "string list" where
  "Object_prototype_keys =
     [''constructor'', ''__defineGetter__'', ''__defineSetter__'', ''hasOwnProperty'',
      ''__lookupGetter__'', ''__lookupSetter__'', ''isPrototypeOf'',
      ''propertyIsEnumerable'', ''toString'', ''valueOf'', ''__proto__'',
      ''toLocaleString'']"

text \<open>
  What the \<open>layout\<close> property of a view can hold: a configuration object,
  \<open>undefined\<close>, or the member of \<open>Object.prototype\<close> of the given name (a function,
  or \<open>Object.prototype\<close> itself for \<open>__proto__\<close>).
\<close>

datatype layout_value =
    Layout_undefined
  | Layout_config layout_config
  | Object_prototype_member string

text \<open>
  The property read \<open>defaultConfigPerViewType[ key ]\<close>: the own property when there
  is one, else the inherited member of \<open>Object.prototype\<close> when the key names one,
  else \<open>undefined\<close>.
\<close>

definition get_defaultConfigPerViewType :: "constants \<Rightarrow> string \<Rightarrow> layout_value" where
  "get_defaultConfigPerViewType c key =
     (case defaultConfigPerViewType c key of
        Some cfg \<Rightarrow> Layout_config cfg
      | None \<Rightarrow>
          if key \<in> set Object_prototype_keys then Object_prototype_member key
          else Layout_undefined)"

record view_sort =
  field :: string
  direction :: string

record view_filter =
  field_fl :: string
  operator :: string
  value_fl :: "string list"

record view =
  type_v :: string
  search :: string
  page :: int
  perPage :: int
  sort_v :: view_sort
  hiddenFields :: "string list"
  layout :: layout_value
  filters :: "view_filter list"

definition DEFAULT_VIEW :: "constants \<Rightarrow> view" where
  "DEFAULT_VIEW c =
     \<lparr>type_v = LAYOUT_GRID c,
      search = '''',
      page = 1,
      perPage = 20,
      sort_v = \<lparr>field = ''title'', direction = ''asc''\<rparr>,
      hiddenFields = [''preview''],
      layout = get_defaultConfigPerViewType c (LAYOUT_GRID c),
      filters = []\<rparr>"

subsection \<open>The route\<close>

text \<open>
  The \<open>params\<close> of the current location: an object from parameter names to values.
  A property can be present with the value \<open>undefined\<close> (the selection handler
  writes one).
\<close>

datatype param_value = Str string | Undefined

type_synonym params = "string \<rightharpoonup> param_value"

text \<open>
  \<^verbatim>\<open>const { activeView = 'all', layout } = params;\<close>
  The default applies when the property is missing or \<open>undefined\<close>.
\<close>

definition params_activeView :: "params \<Rightarrow> string" where
  "params_activeView params =
     (case params ''activeView'' of Some (Str s) \<Rightarrow> s | _ \<Rightarrow> ''all'')"

definition params_layout :: "params \<Rightarrow> string option" where
  "params_layout params =
     (case params ''layout'' of Some (Str s) \<Rightarrow> Some s | _ \<Rightarrow> None)"

text \<open>
  The router history is modelled by the list of the locations handed to
  \<open>history.push\<close>, the oldest first. Reading a property of \<open>undefined\<close> throws a
  \<open>TypeError\<close>.
\<close>

datatype error = TypeError

type_synonym history = "params list"

text \<open>The memoised \<open>defaultView\<close>; \<open>usedType\<close> is \<open>layout ?? DEFAULT_VIEW.type\<close>.\<close>

definition defaultView :: "constants \<Rightarrow> params \<Rightarrow> view" where
  "defaultView c params =
     (let activeView = params_activeView params;
          usedType = (case params_layout params of
                        Some l \<Rightarrow> l
                      | None \<Rightarrow> type_v (DEFAULT_VIEW c))
      in (DEFAULT_VIEW c)
           \<lparr>type_v := usedType,
            layout := get_defaultConfigPerViewType c usedType,
            filters :=
              (if activeView \<noteq> ''all''
               then [\<lparr>field_fl = ''author'', operator = ''isAny'', value_fl = [activeView]\<rparr>]
               else [])\<rparr>)"

text \<open>
  The effect that runs when \<open>activeView\<close> changes: the function it hands to
  \<open>setView\<close>, applied to the current view.
\<close>

definition activeView_effect :: "constants \<Rightarrow> params \<Rightarrow> view \<Rightarrow> view" where
  "activeView_effect c params currentView =
     (let activeView = params_activeView params
      in currentView
           \<lparr>filters :=
              (if activeView \<noteq> ''all''
               then [\<lparr>field_fl = ''author'', operator = OPERATOR_IS_ANY c,
                      value_fl = [activeView]\<rparr>]
               else [])\<rparr>)"

subsection \<open>The store of record objects\<close>

text \<open>
  The fetched records are JavaScript objects, and the items handed to the renderers,
  accessors and handlers are references to them. The store gives the object each
  reference denotes. A computation on the store returns a value and the store it
  leaves behind.
\<close>

type_synonym ref = nat

type_synonym store = "ref \<Rightarrow> template"

text \<open>
  The two accesses to a property of an object: the read \<open>item.p\<close>, and the assignment
  \<open>item.p = v\<close>, given as the update of the object.
\<close>

definition get_prop :: "ref \<Rightarrow> (template \<Rightarrow> 'a) \<Rightarrow> (store, 'a) state" where
  "get_prop item p = State (\<lambda>\<sigma>. (p (\<sigma> item), \<sigma>))"

definition set_prop :: "ref \<Rightarrow> (template \<Rightarrow> template) \<Rightarrow> (store, unit) state" where
  "set_prop item upd = State (\<lambda>\<sigma>. ((), \<sigma>(item := upd (\<sigma> item))))"

text \<open>
  The loop of \<open>authors\<close> on the record objects:
  \<^verbatim>\<open>records.forEach( ( template ) => { authorsSet.add( template.author_text ); } )\<close>
  with the set built so far as accumulator.
\<close>

fun authorsSet_st :: "ref list \<Rightarrow> string list \<Rightarrow> (store, string list) state" where
  "authorsSet_st [] s = State_Monad.return s"
| "authorsSet_st (template # rest) s =
     do {
       author \<leftarrow> get_prop template author_text;
       authorsSet_st rest (Set_add s author)
     }"

definition authors_st :: "ref list option \<Rightarrow> (store, author_element list) state" where
  "authors_st records =
     (case records of
        None \<Rightarrow> State_Monad.return EMPTY_ARRAY
      | Some rs \<Rightarrow>
          do {
            s \<leftarrow> authorsSet_st rs [];
            State_Monad.return (map (\<lambda>author. \<lparr>value_a = author, label = author\<rparr>) s)
          })"

subsection \<open>The components Title, AuthorField and Preview\<close>

text \<open>
  The hooks and functions the three components import. \<open>decodeEntities\<close> may receive
  \<open>undefined\<close> (\<open>None\<close>); \<open>useGlobalStyle\<close> gives the first component of its result,
  \<open>undefined\<close> when the style is not set; \<open>useLink\<close> gives the \<open>onClick\<close> handler of
  its result; \<open>parse\<close> gives the list of blocks.
\<close>

record 'i added_by =
  text_ab :: string
  icon_ab :: 'i
  imageUrl_ab :: "string option"

record ('b, 'i, 's, 'k) hooks =
  decodeEntities :: "string option \<Rightarrow> string option"
  parse :: "string \<Rightarrow> 'b list"
  useAddedBy :: "string \<Rightarrow> string \<Rightarrow> 'i added_by"
  usePatternSettings :: 's
  useGlobalStyle :: "string \<Rightarrow> string option"
  useLink :: "params \<Rightarrow> 'k"

text \<open>A string or \<open>undefined\<close> is truthy when it is a non-empty string.\<close>

definition truthy :: "string option \<Rightarrow> bool" where
  "truthy s = (case s of None \<Rightarrow> False | Some t \<Rightarrow> t \<noteq> '''')"

text \<open>\<^verbatim>\<open>x || __( '(no title)' )\<close>\<close>

definition or_no_title :: "string option \<Rightarrow> string" where
  "or_no_title x = (case x of None \<Rightarrow> ''(no title)'' | Some t \<Rightarrow> if t \<noteq> '''' then t else ''(no title)'')"

text \<open>
  What \<open>Title\<close> returns: the text alone in the list layout, otherwise the text inside
  a \<open>Link\<close> with the given properties (\<open>state_l\<close> is the \<open>backPath\<close> of
  \<open>linkProps.state\<close> when it is set).
\<close>

record link_props =
  params_l :: params
  state_l :: "string option"

datatype title_output = Title_text string | Title_link link_props string

definition Title_component ::
  "constants \<Rightarrow> ('b, 'i, 's, 'k) hooks \<Rightarrow> string \<Rightarrow> ref \<Rightarrow> (store, title_output) state" where
  "Title_component c hk viewType item =
     (if viewType = LAYOUT_LIST c
      then do {
        rendered \<leftarrow> get_prop item title_rendered;
        State_Monad.return (Title_text (or_no_title (decodeEntities hk rendered)))
      }
      else do {
        postId \<leftarrow> get_prop item id_t;
        postType \<leftarrow> get_prop item type_t;
        type' \<leftarrow> get_prop item type_t;
        rendered \<leftarrow> get_prop item title_rendered;
        State_Monad.return
          (Title_link
             \<lparr>params_l = [''postId'' \<mapsto> Str postId, ''postType'' \<mapsto> Str postType,
                          ''canvas'' \<mapsto> Str ''edit''],
              state_l = (if type' = TEMPLATE_PART_POST_TYPE c
                         then Some ''/wp_template_part/all'' else None)\<rparr>
             (or_no_title (decodeEntities hk rendered)))
      })"

text \<open>
  What \<open>AuthorField\<close> returns: the avatar (whether its class has \<open>is-loaded\<close>, and the
  image source) or the icon, when present, and the name. \<open>isImageLoaded\<close> is the
  component's own state.
\<close>

record 'i author_output =
  avatar_o :: "(bool \<times> string) option"
  icon_o :: "'i option"
  name_o :: string

definition AuthorField_component ::
  "constants \<Rightarrow> ('b, 'i, 's, 'k) hooks \<Rightarrow> bool \<Rightarrow> string \<Rightarrow> ref \<Rightarrow>
   (store, 'i author_output) state" where
  "AuthorField_component c hk isImageLoaded viewType item =
     do {
       type' \<leftarrow> get_prop item type_t;
       id' \<leftarrow> get_prop item id_t;
       let addedBy = useAddedBy hk type' id';
       let withIcon = (viewType \<noteq> LAYOUT_LIST c);
       State_Monad.return
         \<lparr>avatar_o = (case imageUrl_ab addedBy of
                        Some url \<Rightarrow>
                          if withIcon \<and> url \<noteq> '''' then Some (isImageLoaded, url) else None
                      | None \<Rightarrow> None),
          icon_o = (if withIcon \<and> \<not> truthy (imageUrl_ab addedBy)
                    then Some (icon_ab addedBy) else None),
          name_o = text_ab addedBy\<rparr>
     }"

text \<open>
  What \<open>Preview\<close> returns. \<open>blocks_o\<close> is the block preview placed directly in the
  container (list layout), \<open>button_o\<close> the button of the other layouts with its
  handler, label, the text shown for an empty template and its block preview. The
  label \<open>item.title?.rendered || item.title\<close> is the rendered title when that is
  truthy and otherwise the value of \<open>item.title\<close> itself.
\<close>

datatype aria_label = Aria_rendered string | Aria_item_title

record ('b, 'k) preview_button =
  onClick_b :: 'k
  aria_label_b :: aria_label
  empty_text_b :: "string option"
  blocks_b :: "'b list option"

record ('b, 's, 'k) preview_output =
  settings_o :: 's
  className_o :: string
  backgroundColor_o :: string
  blocks_o :: "'b list option"
  button_o :: "('b, 'k) preview_button option"

definition Preview_component ::
  "constants \<Rightarrow> ('b, 'i, 's, 'k) hooks \<Rightarrow> string \<Rightarrow> ref \<Rightarrow>
   (store, ('b, 's, 'k) preview_output) state" where
  "Preview_component c hk viewType item =
     do {
       raw \<leftarrow> get_prop item content_raw;
       let blocks = parse hk raw;
       postId \<leftarrow> get_prop item id_t;
       postType \<leftarrow> get_prop item type_t;
       let onClick = useLink hk [''postId'' \<mapsto> Str postId, ''postType'' \<mapsto> Str postType,
                                 ''canvas'' \<mapsto> Str ''edit''];
       let isEmpty = (blocks = []);
       button \<leftarrow>
         (if viewType \<noteq> LAYOUT_LIST c
          then do {
            rendered \<leftarrow> get_prop item title_rendered;
            empty_text \<leftarrow>
              (if isEmpty
               then do {
                 type' \<leftarrow> get_prop item type_t;
                 State_Monad.return
                   (Some (if type' = TEMPLATE_POST_TYPE c
                          then ''Empty template'' else ''Empty template part''))
               }
               else State_Monad.return None);
            State_Monad.return
              (Some \<lparr>onClick_b = onClick,
                     aria_label_b = (case rendered of
                                       Some t \<Rightarrow>
                                         if t \<noteq> '''' then Aria_rendered t else Aria_item_title
                                     | None \<Rightarrow> Aria_item_title),
                     empty_text_b = empty_text,
                     blocks_b = (if isEmpty then None else Some blocks)\<rparr>)
          }
          else State_Monad.return None);
       State_Monad.return
         \<lparr>settings_o = usePatternSettings hk,
          className_o = ''page-templates-preview-field is-viewtype-'' @ viewType,
          backgroundColor_o = (case useGlobalStyle hk ''color.background'' of
                                 None \<Rightarrow> ''white''
                               | Some colour \<Rightarrow> colour),
          blocks_o = (if viewType = LAYOUT_LIST c \<and> \<not> isEmpty then Some blocks else None),
          button_o = button\<rparr>
     }"

subsection \<open>Field descriptors\<close>

text \<open>
  What a field's \<open>render\<close> function returns, as a term: the component it instantiates
  with the properties it passes. The components \<open>Preview\<close>, \<open>Title\<close> and
  \<open>AuthorField\<close> receive the item and the view type; the description renderer gives
  the span around \<open>decodeEntities( item.description )\<close>, the muted dash with the hidden
  text \<open>No description.\<close>, or \<open>false\<close>.
\<close>

datatype element =
    Preview template string
  | Title template string
  | AuthorField string template
  | Span_decodeEntities string
  | No_description
  | False_element

text \<open>
  A field descriptor. A property that the object literal does not write is \<open>None\<close>.
  \<open>header\<close> holds the message handed to the translation function \<open>__\<close>.
\<close>

record field_descriptor =
  header :: string
  id_f :: string
  getValue :: "(template \<Rightarrow> string option) option"
  render :: "template \<Rightarrow> element"
  minWidth :: "int option"
  maxWidth :: "int option"
  enableSorting :: "bool option"
  enableHiding :: "bool option"
  enableGlobalSearch :: "bool option"
  type_f :: "string option"
  elements :: "author_element list option"
  width :: "string option"

definition preview_field :: "string \<Rightarrow> field_descriptor" where
  "preview_field viewType =
     \<lparr>header = ''Preview'',
      id_f = ''preview'',
      getValue = None,
      render = (\<lambda>item. Preview item viewType),
      minWidth = Some 120,
      maxWidth = Some 120,
      enableSorting = Some False,
      enableHiding = None,
      enableGlobalSearch = None,
      type_f = None,
      elements = None,
      width = None\<rparr>"

definition title_field :: "constants \<Rightarrow> string \<Rightarrow> string \<Rightarrow> field_descriptor" where
  "title_field c postType viewType =
     \<lparr>header = (if postType = TEMPLATE_POST_TYPE c then ''Template'' else ''Template Part''),
      id_f = ''title'',
      getValue = Some (\<lambda>item. title_rendered item),
      render = (\<lambda>item. Title item viewType),
      minWidth = None,
      maxWidth = Some 400,
      enableSorting = None,
      enableHiding = Some False,
      enableGlobalSearch = Some True,
      type_f = None,
      elements = None,
      width = None\<rparr>"

text \<open>
  The description renderer tests \<open>item.description\<close> for truthiness: the empty string
  is falsy.
\<close>

definition description_field :: "constants \<Rightarrow> string \<Rightarrow> field_descriptor" where
  "description_field c viewType =
     \<lparr>header = ''Description'',
      id_f = ''description'',
      getValue = None,
      render = (\<lambda>item.
        if description item \<noteq> '''' then Span_decodeEntities (description item)
        else if viewType = LAYOUT_TABLE c then No_description
        else False_element),
      minWidth = Some 320,
      maxWidth = Some 400,
      enableSorting = Some False,
      enableHiding = None,
      enableGlobalSearch = Some True,
      type_f = None,
      elements = None,
      width = None\<rparr>"

definition author_field ::
  "constants \<Rightarrow> author_element list \<Rightarrow> string \<Rightarrow> field_descriptor" where
  "author_field c authors' viewType =
     \<lparr>header = ''Author'',
      id_f = ''author'',
      getValue = Some (\<lambda>item. Some (author_text item)),
      render = (\<lambda>item. AuthorField viewType item),
      minWidth = None,
      maxWidth = None,
      enableSorting = None,
      enableHiding = None,
      enableGlobalSearch = None,
      type_f = Some (ENUMERATION_TYPE c),
      elements = Some authors',
      width = Some ''1%''\<rparr>"

text \<open>
  The properties handed to the \<open>DataViews\<close> component. The two handlers it also
  receives are the functions \<open>onChangeView\<close> and \<open>onSelectionChange\<close> below.
\<close>

record ('d, 'p, 'a) dataviews_props =
  paginationInfo_p :: 'p
  fields_p :: "field_descriptor list"
  actions_p :: 'a
  data_p :: 'd
  isLoading_p :: bool
  view_p :: view



text \<open>
  The memoised \<open>fields\<close>, from \<open>postType\<close>, \<open>authors\<close> and \<open>view.type\<close>: the array
  starts with the preview and title descriptors, the description descriptor is pushed
  when \<open>postType === TEMPLATE_POST_TYPE\<close>, then the author descriptor is pushed.
\<close>

definition fields ::
  "constants \<Rightarrow> string \<Rightarrow> author_element list \<Rightarrow> string \<Rightarrow> field_descriptor list" where
  "fields c postType authors' viewType =
     (let fs0 = [preview_field viewType, title_field c postType viewType];
          fs1 = (if postType = TEMPLATE_POST_TYPE c
                 then fs0 @ [description_field c viewType]
                 else fs0)
      in fs1 @ [author_field c authors' viewType])"

text \<open>
  The accessors and the one field renderer that read a property of the item, on a
  reference: \<open>getValue\<close> of the title field (\<open>item.title?.rendered\<close>), \<open>getValue\<close> of
  the author field (\<open>item.author_text\<close>) and \<open>render\<close> of the description field.
\<close>

definition getValue_title_st :: "ref \<Rightarrow> (store, string option) state" where
  "getValue_title_st item = get_prop item title_rendered"

definition getValue_author_st :: "ref \<Rightarrow> (store, string option) state" where
  "getValue_author_st item =
     do {
       author \<leftarrow> get_prop item author_text;
       State_Monad.return (Some author)
     }"

definition render_description_st :: "constants \<Rightarrow> string \<Rightarrow> ref \<Rightarrow> (store, element) state" where
  "render_description_st c viewType item =
     do {
       d \<leftarrow> get_prop item description;
       if d \<noteq> ''''
       then do {
         d' \<leftarrow> get_prop item description;
         State_Monad.return (Span_decodeEntities d')
       }
       else State_Monad.return
              (if viewType = LAYOUT_TABLE c then No_description else False_element)
     }"

subsection \<open>Handlers\<close>

definition TEMPLATE_ACTIONS :: "string list" where
  "TEMPLATE_ACTIONS =
     [''edit-post'', ''reset-template'', ''rename-template'', ''view-post-revisions'',
      ''delete-template'']"

text \<open>
  \<open>onSelectionChange\<close>: in the list layout, push the current parameters with
  \<open>postId\<close> set to the id of the single selected item, or to \<open>undefined\<close>.
\<close>

definition onSelectionChange ::
  "constants \<Rightarrow> params \<Rightarrow> view \<Rightarrow> template list \<Rightarrow> history \<Rightarrow> history" where
  "onSelectionChange c params view items h =
     (if type_v view = LAYOUT_LIST c
      then h @ [params(''postId'' \<mapsto>
                  (case items of [item] \<Rightarrow> Str (id_t item) | _ \<Rightarrow> Undefined))]
      else h)"

text \<open>
  \<open>onActionPerformed\<close>: after the action \<open>edit-post\<close>, push the editor location of
  \<open>items[ 0 ]\<close>; with no item, \<open>post\<close> is \<open>undefined\<close> and \<open>post.id\<close> throws.
\<close>

definition onActionPerformed ::
  "string \<Rightarrow> template list \<Rightarrow> history \<Rightarrow> error + history" where
  "onActionPerformed actionId items h =
     (if actionId = ''edit-post''
      then (case items of
              [] \<Rightarrow> Inl TypeError
            | post # _ \<Rightarrow>
                Inr (h @ [[''postId'' \<mapsto> Str (id_t post),
                           ''postType'' \<mapsto> Str (type_t post),
                           ''canvas'' \<mapsto> Str ''edit'']]))
      else Inr h)"

text \<open>
  The two handlers that receive items, on references to the record objects.
\<close>

definition onSelectionChange_st ::
  "constants \<Rightarrow> params \<Rightarrow> view \<Rightarrow> ref list \<Rightarrow> history \<Rightarrow> (store, history) state" where
  "onSelectionChange_st c params view items h =
     (if type_v view = LAYOUT_LIST c
      then do {
        postId \<leftarrow>
          (case items of
             [item] \<Rightarrow> do { i \<leftarrow> get_prop item id_t; State_Monad.return (Str i) }
           | _ \<Rightarrow> State_Monad.return Undefined);
        State_Monad.return (h @ [params(''postId'' \<mapsto> postId)])
      }
      else State_Monad.return h)"

definition onActionPerformed_st ::
  "string \<Rightarrow> ref list \<Rightarrow> history \<Rightarrow> (store, error + history) state" where
  "onActionPerformed_st actionId items h =
     (if actionId = ''edit-post''
      then (case items of
              [] \<Rightarrow> State_Monad.return (Inl TypeError)
            | post # _ \<Rightarrow>
                do {
                  postId \<leftarrow> get_prop post id_t;
                  postType \<leftarrow> get_prop post type_t;
                  State_Monad.return
                    (Inr (h @ [[''postId'' \<mapsto> Str postId,
                                ''postType'' \<mapsto> Str postType,
                                ''canvas'' \<mapsto> Str ''edit'']]))
                })
      else State_Monad.return (Inr h))"

text \<open>
  The object spread \<open>{ ...x }\<close>: a copy of the own enumerable properties of \<open>x\<close>.
  It is a copy of a configuration, and the empty object when \<open>x\<close> is \<open>undefined\<close> or
  a member of \<open>Object.prototype\<close> (none of them has an own enumerable property).
\<close>

definition spread_config :: "layout_value \<Rightarrow> layout_config" where
  "spread_config x =
     (case x of
        Layout_config cfg \<Rightarrow> cfg
      | _ \<Rightarrow> \<lparr>primaryField = None, mediaField = None, columnFields = None\<rparr>)"

text \<open>
  \<open>onChangeView\<close>, given the parameters and the view of the current render: the view
  handed to \<open>setView\<close> and the history afterwards.
\<close>

definition onChangeView ::
  "constants \<Rightarrow> params \<Rightarrow> view \<Rightarrow> view \<Rightarrow> history \<Rightarrow> view \<times> history" where
  "onChangeView c params view newView h =
     (if type_v newView \<noteq> type_v view
      then (newView\<lparr>layout :=
                      Layout_config
                        (spread_config (get_defaultConfigPerViewType c (type_v newView)))\<rparr>,
            h @ [params(''layout'' \<mapsto> Str (type_v newView))])
      else (newView, h))"

subsection \<open>The rendered data view\<close>

text \<open>
  One render of the component. The imported \<open>filterSortAndPaginate\<close> and the hook
  \<open>usePostActions\<close> are parameters, as are the results \<open>records\<close> and \<open>isResolving\<close>
  of \<open>useEntityRecords\<close> and the current view state.
\<close>

definition PageTemplatesTemplateParts ::
  "constants \<Rightarrow>
   (template list option \<Rightarrow> view \<Rightarrow> field_descriptor list \<Rightarrow> 'd \<times> 'p) \<Rightarrow>
   ((string \<Rightarrow> template list \<Rightarrow> history \<Rightarrow> error + history) \<Rightarrow> string list \<Rightarrow> 'a) \<Rightarrow>
   string \<Rightarrow> template list option \<Rightarrow> bool \<Rightarrow> view \<Rightarrow> ('d, 'p, 'a) dataviews_props" where
  "PageTemplatesTemplateParts c filterSortAndPaginate usePostActions postType records
      isLoadingData view =
     (let authors' = authors records;
          fields' = fields c postType authors' (type_v view);
          (data, paginationInfo) = filterSortAndPaginate records view fields';
          actions = usePostActions onActionPerformed TEMPLATE_ACTIONS
      in \<lparr>paginationInfo_p = paginationInfo,
          fields_p = fields',
          actions_p = actions,
          data_p = data,
          isLoading_p = isLoadingData,
          view_p = view\<rparr>)"



subsection \<open>Sample inputs\<close>

text \<open>
  A store in which every reference denotes the same template, and a choice of the
  imported hooks, used to evaluate the computations on a concrete input.
\<close>

definition sample_template :: template where
  "sample_template =
     \<lparr>id_t = ''theme//index'', type_t = ''wp_template'', title_rendered = Some ''Index'',
      description = '''', content_raw = ''<!-- wp:post-content /-->'',
      author_text = ''Theme''\<rparr>"

definition sample_store :: store where
  "sample_store = (\<lambda>item. sample_template)"

definition sample_hooks :: "(string, string, unit, params) hooks" where
  "sample_hooks =
     \<lparr>decodeEntities = (\<lambda>html. html),
      parse = (\<lambda>raw. if raw = '''' then [] else [raw]),
      useAddedBy = (\<lambda>type' id'. \<lparr>text_ab = ''Theme'', icon_ab = ''layout'', imageUrl_ab = None\<rparr>),
      usePatternSettings = (),
      useGlobalStyle = (\<lambda>path. None),
      useLink = (\<lambda>params. params)\<rparr>"

section \<open>Properties\<close>

subsection \<open>The author enumeration\<close>

lemma set_Set_add: "set (Set_add s x) = insert x (set s)"
  by (auto simp: Set_add_def)

lemma distinct_Set_add: "distinct s \<Longrightarrow> distinct (Set_add s x)"
  by (simp add: Set_add_def)

lemma set_foldl_Set_add:
  "set (foldl (\<lambda>s t. Set_add s (f t)) acc rs) = set acc \<union> f ` set rs"
  by (induction rs arbitrary: acc) (auto simp: set_Set_add)

lemma distinct_foldl_Set_add:
  "distinct acc \<Longrightarrow> distinct (foldl (\<lambda>s t. Set_add s (f t)) acc rs)"
  by (induction rs arbitrary: acc) (simp_all add: distinct_Set_add)

lemma set_authorsSet: "set (authorsSet rs) = author_text ` set rs"
  by (simp add: authorsSet_def set_foldl_Set_add)

lemma distinct_authorsSet: "distinct (authorsSet rs)"
  by (simp add: authorsSet_def distinct_foldl_Set_add)

lemma map_value_authors: "map value_a (authors (Some rs)) = authorsSet rs"
  by (simp add: authors_def comp_def)

text \<open>
  C10. The author enumeration is empty while no records have been fetched; otherwise
  its values are pairwise distinct, they are exactly the \<open>author_text\<close> values that
  occur in the records (so there is one element per distinct value), and every
  element has its label equal to its value.
\<close>

theorem authors_distinct_faithful:
  "authors None = []
   \<and> distinct (map value_a (authors (Some rs)))
   \<and> set (map value_a (authors (Some rs))) = author_text ` set rs
   \<and> length (authors (Some rs)) = card (author_text ` set rs)
   \<and> map label (authors records) = map value_a (authors records)"
proof -
  have none: "authors None = []"
    by (simp add: authors_def EMPTY_ARRAY_def)
  have dist: "distinct (map value_a (authors (Some rs)))"
    by (simp only: map_value_authors distinct_authorsSet)
  have vals: "set (map value_a (authors (Some rs))) = author_text ` set rs"
    by (simp only: map_value_authors set_authorsSet)
  have "length (authors (Some rs)) = length (map value_a (authors (Some rs)))"
    by simp
  also have "\<dots> = card (set (map value_a (authors (Some rs))))"
    using dist by (simp only: distinct_card)
  finally have len: "length (authors (Some rs)) = card (author_text ` set rs)"
    by (simp only: vals)
  have lab: "map label (authors records) = map value_a (authors records)"
    by (cases records) (simp_all add: authors_def EMPTY_ARRAY_def)
  from none dist vals len lab show ?thesis by blast
qed

subsection \<open>The default view and the filters\<close>

lemma filters_defaultView:
  "filters (defaultView c params) =
     (if params_activeView params \<noteq> ''all''
      then [\<lparr>field_fl = ''author'', operator = ''isAny'',
             value_fl = [params_activeView params]\<rparr>]
      else [])"
  by (simp add: defaultView_def Let_def)

lemma filters_activeView_effect:
  "filters (activeView_effect c params currentView) =
     (if params_activeView params \<noteq> ''all''
      then [\<lparr>field_fl = ''author'', operator = OPERATOR_IS_ANY c,
             value_fl = [params_activeView params]\<rparr>]
      else [])"
  by (simp add: activeView_effect_def Let_def)

text \<open>
  C1. For every route, the filters of the initial default view and the filters of the
  view after the effect on \<open>activeView\<close> are the one-element list with the author
  filter on \<open>activeView\<close> when \<open>activeView\<close> is not \<open>all\<close>, and the empty list when it
  is \<open>all\<close>. The default view writes the operator as the literal \<open>isAny\<close>, the effect
  as the imported \<open>OPERATOR_IS_ANY\<close>; where that constant is \<open>isAny\<close> the two lists are
  the same one.
\<close>

theorem filters_reflect_activeView:
  "filters (defaultView c params) =
     (if params_activeView params \<noteq> ''all''
      then [\<lparr>field_fl = ''author'', operator = ''isAny'',
             value_fl = [params_activeView params]\<rparr>]
      else [])
   \<and> filters (activeView_effect c params currentView) =
     (if params_activeView params \<noteq> ''all''
      then [\<lparr>field_fl = ''author'', operator = OPERATOR_IS_ANY c,
             value_fl = [params_activeView params]\<rparr>]
      else [])
   \<and> (OPERATOR_IS_ANY c = ''isAny'' \<longrightarrow>
        filters (activeView_effect c params currentView) = filters (defaultView c params))"
  by (simp add: filters_defaultView filters_activeView_effect)

theorem filters_reflect_activeView_witness:
  "OPERATOR_IS_ANY sample_constants = ''isAny''
   \<and> filters (defaultView sample_constants [''activeView'' \<mapsto> Str ''admin'']) =
       [\<lparr>field_fl = ''author'', operator = ''isAny'', value_fl = [''admin'']\<rparr>]
   \<and> filters (activeView_effect sample_constants [''activeView'' \<mapsto> Str ''admin'']
        (DEFAULT_VIEW sample_constants)) =
       [\<lparr>field_fl = ''author'', operator = ''isAny'', value_fl = [''admin'']\<rparr>]
   \<and> filters (defaultView sample_constants Map.empty) = []
   \<and> filters (activeView_effect sample_constants Map.empty
        ((DEFAULT_VIEW sample_constants)
           \<lparr>filters := [\<lparr>field_fl = ''author'', operator = ''isAny'',
                          value_fl = [''admin'']\<rparr>]\<rparr>)) = []"
proof -
  have op: "OPERATOR_IS_ANY sample_constants = ''isAny''"
    by (simp add: sample_constants_def)
  have a: "params_activeView [''activeView'' \<mapsto> Str ''admin''] = ''admin''"
    by (simp add: params_activeView_def)
  have b: "params_activeView Map.empty = ''all''"
    by (simp add: params_activeView_def)
  note t1 = filters_reflect_activeView
    [of sample_constants "[''activeView'' \<mapsto> Str ''admin'']" "DEFAULT_VIEW sample_constants"]
  note t2 = filters_reflect_activeView
    [of sample_constants Map.empty
      "(DEFAULT_VIEW sample_constants)
         \<lparr>filters := [\<lparr>field_fl = ''author'', operator = ''isAny'',
                        value_fl = [''admin'']\<rparr>]\<rparr>"]
  from t1 t2 op show ?thesis
    by (simp add: a b)
qed

lemma get_defaultConfigPerViewType_own:
  "defaultConfigPerViewType c key = Some cfg \<Longrightarrow>
     get_defaultConfigPerViewType c key = Layout_config cfg"
  by (simp add: get_defaultConfigPerViewType_def)

text \<open>
  C4. The initial view is derived from the route: its type is the route's \<open>layout\<close>
  parameter when there is one and the grid layout otherwise, its per-layout
  configuration is what \<open>defaultConfigPerViewType\<close> gives when read at that type
  (the entry of the type when it has one), and \<open>search\<close>, \<open>page\<close>, \<open>perPage\<close>,
  \<open>sort\<close> and \<open>hiddenFields\<close> are those of \<open>DEFAULT_VIEW\<close>: the empty search, page 1,
  20 per page, sorted by title ascending, with the preview hidden.
\<close>

theorem defaultView_from_route:
  "type_v (defaultView c params) =
     (case params_layout params of Some l \<Rightarrow> l | None \<Rightarrow> LAYOUT_GRID c)
   \<and> layout (defaultView c params) =
       get_defaultConfigPerViewType c (type_v (defaultView c params))
   \<and> (case defaultConfigPerViewType c (type_v (defaultView c params)) of
         Some cfg \<Rightarrow> layout (defaultView c params) = Layout_config cfg
       | None \<Rightarrow> layout (defaultView c params) =
           (if type_v (defaultView c params) \<in> set Object_prototype_keys
            then Object_prototype_member (type_v (defaultView c params))
            else Layout_undefined))
   \<and> search (defaultView c params) = search (DEFAULT_VIEW c)
   \<and> page (defaultView c params) = page (DEFAULT_VIEW c)
   \<and> perPage (defaultView c params) = perPage (DEFAULT_VIEW c)
   \<and> sort_v (defaultView c params) = sort_v (DEFAULT_VIEW c)
   \<and> hiddenFields (defaultView c params) = hiddenFields (DEFAULT_VIEW c)
   \<and> search (defaultView c params) = ''''
   \<and> page (defaultView c params) = 1
   \<and> perPage (defaultView c params) = 20
   \<and> sort_v (defaultView c params) = \<lparr>field = ''title'', direction = ''asc''\<rparr>
   \<and> hiddenFields (defaultView c params) = [''preview'']
   \<and> defaultView c params =
       (DEFAULT_VIEW c)
         \<lparr>type_v := type_v (defaultView c params),
          layout := layout (defaultView c params),
          filters := filters (defaultView c params)\<rparr>"
proof -
  have "layout (defaultView c params) =
      get_defaultConfigPerViewType c (type_v (defaultView c params))"
    by (simp add: defaultView_def Let_def)
  moreover from this
  have "case defaultConfigPerViewType c (type_v (defaultView c params)) of
          Some cfg \<Rightarrow> layout (defaultView c params) = Layout_config cfg
        | None \<Rightarrow> layout (defaultView c params) =
            (if type_v (defaultView c params) \<in> set Object_prototype_keys
             then Object_prototype_member (type_v (defaultView c params))
             else Layout_undefined)"
    by (simp add: get_defaultConfigPerViewType_def split: option.split)
  moreover
  have "type_v (defaultView c params) =
      (case params_layout params of Some l \<Rightarrow> l | None \<Rightarrow> LAYOUT_GRID c)"
    by (simp add: defaultView_def DEFAULT_VIEW_def Let_def split: option.split)
  moreover
  have "search (defaultView c params) = search (DEFAULT_VIEW c)
      \<and> page (defaultView c params) = page (DEFAULT_VIEW c)
      \<and> perPage (defaultView c params) = perPage (DEFAULT_VIEW c)
      \<and> sort_v (defaultView c params) = sort_v (DEFAULT_VIEW c)
      \<and> hiddenFields (defaultView c params) = hiddenFields (DEFAULT_VIEW c)"
    by (simp add: defaultView_def Let_def)
  moreover
  have "search (defaultView c params) = ''''
      \<and> page (defaultView c params) = 1
      \<and> perPage (defaultView c params) = 20
      \<and> sort_v (defaultView c params) = \<lparr>field = ''title'', direction = ''asc''\<rparr>
      \<and> hiddenFields (defaultView c params) = [''preview'']"
    by (simp add: defaultView_def DEFAULT_VIEW_def Let_def)
  moreover
  have "defaultView c params =
      (DEFAULT_VIEW c)
        \<lparr>type_v := type_v (defaultView c params),
         layout := layout (defaultView c params),
         filters := filters (defaultView c params)\<rparr>"
    by (simp add: defaultView_def Let_def)
  ultimately show ?thesis
    by (simp only: simp_thms)
qed

theorem defaultView_from_route_witness:
  "type_v (defaultView sample_constants [''layout'' \<mapsto> Str ''table'']) = ''table''
   \<and> layout (defaultView sample_constants [''layout'' \<mapsto> Str ''table'']) =
       Layout_config
         \<lparr>primaryField = Some ''title'', mediaField = None, columnFields = None\<rparr>
   \<and> type_v (defaultView sample_constants Map.empty) = ''grid''
   \<and> layout (defaultView sample_constants Map.empty) =
       Layout_config
         \<lparr>primaryField = Some ''title'', mediaField = Some ''preview'',
          columnFields = Some [''description'']\<rparr>
   \<and> perPage (defaultView sample_constants Map.empty) = 20
   \<and> type_v (defaultView sample_constants [''layout'' \<mapsto> Str ''constructor''])
       = ''constructor''
   \<and> layout (defaultView sample_constants [''layout'' \<mapsto> Str ''constructor''])
       = Object_prototype_member ''constructor''
   \<and> layout (defaultView sample_constants [''layout'' \<mapsto> Str ''masonry''])
       = Layout_undefined"
proof -
  have l: "params_layout [''layout'' \<mapsto> Str ''table''] = Some ''table''"
    and n: "params_layout Map.empty = None"
    and k: "params_layout [''layout'' \<mapsto> Str ''constructor''] = Some ''constructor''"
    and m: "params_layout [''layout'' \<mapsto> Str ''masonry''] = Some ''masonry''"
    by (simp_all add: params_layout_def)
  have t: "get_defaultConfigPerViewType sample_constants ''table'' =
      Layout_config
        \<lparr>primaryField = Some ''title'', mediaField = None, columnFields = None\<rparr>"
    and g: "get_defaultConfigPerViewType sample_constants ''grid'' =
      Layout_config
        \<lparr>primaryField = Some ''title'', mediaField = Some ''preview'',
         columnFields = Some [''description'']\<rparr>"
    and o: "get_defaultConfigPerViewType sample_constants ''constructor'' =
      Object_prototype_member ''constructor''"
    and u: "get_defaultConfigPerViewType sample_constants ''masonry'' = Layout_undefined"
    by (simp_all add: get_defaultConfigPerViewType_def defaultConfigPerViewType_def
        sample_constants_def Object_prototype_keys_def)
  have grid: "LAYOUT_GRID sample_constants = ''grid''"
    by (simp add: sample_constants_def)
  note a = defaultView_from_route [of sample_constants "[''layout'' \<mapsto> Str ''table'']"]
  note b = defaultView_from_route [of sample_constants Map.empty]
  note d = defaultView_from_route [of sample_constants "[''layout'' \<mapsto> Str ''constructor'']"]
  note e = defaultView_from_route [of sample_constants "[''layout'' \<mapsto> Str ''masonry'']"]
  from a have a1: "type_v (defaultView sample_constants [''layout'' \<mapsto> Str ''table'']) = ''table''"
    by (simp add: l)
  from a have a2: "layout (defaultView sample_constants [''layout'' \<mapsto> Str ''table'']) =
      get_defaultConfigPerViewType sample_constants
        (type_v (defaultView sample_constants [''layout'' \<mapsto> Str ''table'']))"
    by blast
  from b have b1: "type_v (defaultView sample_constants Map.empty) = ''grid''"
    by (simp add: n grid)
  from b have b2: "layout (defaultView sample_constants Map.empty) =
      get_defaultConfigPerViewType sample_constants
        (type_v (defaultView sample_constants Map.empty))"
    by blast
  from b have b3: "perPage (defaultView sample_constants Map.empty) = 20"
    by blast
  from d have d1: "type_v (defaultView sample_constants [''layout'' \<mapsto> Str ''constructor''])
      = ''constructor''"
    by (simp add: k)
  from d have d2: "layout (defaultView sample_constants [''layout'' \<mapsto> Str ''constructor'']) =
      get_defaultConfigPerViewType sample_constants
        (type_v (defaultView sample_constants [''layout'' \<mapsto> Str ''constructor'']))"
    by blast
  from e have e1: "type_v (defaultView sample_constants [''layout'' \<mapsto> Str ''masonry''])
      = ''masonry''"
    by (simp add: m)
  from e have e2: "layout (defaultView sample_constants [''layout'' \<mapsto> Str ''masonry'']) =
      get_defaultConfigPerViewType sample_constants
        (type_v (defaultView sample_constants [''layout'' \<mapsto> Str ''masonry'']))"
    by blast
  from a1 a2 b1 b2 b3 d1 d2 e1 e2 t g o u show ?thesis
    by (simp only:)
qed

subsection \<open>Computations on the store\<close>

text \<open>
  What each computation on the store returns and the store it leaves, in terms of the
  objects the references denote.
\<close>

lemma run_get_prop: "run_state (get_prop item p) \<sigma> = (p (\<sigma> item), \<sigma>)"
  by (simp add: get_prop_def)

lemma run_set_prop: "run_state (set_prop item upd) \<sigma> = ((), \<sigma>(item := upd (\<sigma> item)))"
  by (simp add: set_prop_def)

text \<open>An assignment to a property of a record is a change of the store.\<close>

lemma set_prop_changes_store:
  "description (\<sigma> item) \<noteq> d \<Longrightarrow>
     snd (run_state (set_prop item (\<lambda>t. t\<lparr>description := d\<rparr>)) \<sigma>) \<noteq> \<sigma>"
proof
  assume differs: "description (\<sigma> item) \<noteq> d"
    and same: "snd (run_state (set_prop item (\<lambda>t. t\<lparr>description := d\<rparr>)) \<sigma>) = \<sigma>"
  from same have "\<sigma>(item := (\<sigma> item)\<lparr>description := d\<rparr>) = \<sigma>"
    by (simp add: run_set_prop)
  then have "(\<sigma>(item := (\<sigma> item)\<lparr>description := d\<rparr>)) item = \<sigma> item"
    by (rule arg_cong)
  then have "description ((\<sigma> item)\<lparr>description := d\<rparr>) = description (\<sigma> item)"
    by simp
  with differs show False
    by simp
qed

lemma run_authorsSet_st:
  "run_state (authorsSet_st rs s) \<sigma> =
     (foldl (\<lambda>s template. Set_add s (author_text template)) s (map \<sigma> rs), \<sigma>)"
proof (induction rs arbitrary: s)
  case Nil
  show ?case by simp
next
  case (Cons r rs)
  show ?case
    by (simp add: run_get_prop Cons.IH)
qed

lemma run_authors_st:
  "run_state (authors_st records) \<sigma> = (authors (map_option (map \<sigma>) records), \<sigma>)"
  by (cases records) (simp_all add: authors_st_def authors_def authorsSet_def run_authorsSet_st)

lemma run_getValue_title_st:
  "run_state (getValue_title_st item) \<sigma> = (title_rendered (\<sigma> item), \<sigma>)"
  by (simp add: getValue_title_st_def run_get_prop)

lemma run_getValue_author_st:
  "run_state (getValue_author_st item) \<sigma> = (Some (author_text (\<sigma> item)), \<sigma>)"
  by (simp add: getValue_author_st_def run_get_prop)

lemma run_render_description_st:
  "run_state (render_description_st c viewType item) \<sigma> =
     (render (description_field c viewType) (\<sigma> item), \<sigma>)"
  by (simp add: render_description_st_def description_field_def run_get_prop)

lemma run_Title_component:
  "run_state (Title_component c hk viewType item) \<sigma> =
     (if viewType = LAYOUT_LIST c
      then Title_text (or_no_title (decodeEntities hk (title_rendered (\<sigma> item))))
      else Title_link
             \<lparr>params_l = [''postId'' \<mapsto> Str (id_t (\<sigma> item)),
                          ''postType'' \<mapsto> Str (type_t (\<sigma> item)),
                          ''canvas'' \<mapsto> Str ''edit''],
              state_l = (if type_t (\<sigma> item) = TEMPLATE_PART_POST_TYPE c
                         then Some ''/wp_template_part/all'' else None)\<rparr>
             (or_no_title (decodeEntities hk (title_rendered (\<sigma> item)))),
      \<sigma>)"
  by (simp add: Title_component_def run_get_prop)

lemma run_AuthorField_component:
  "run_state (AuthorField_component c hk isImageLoaded viewType item) \<sigma> =
     (\<lparr>avatar_o =
         (case imageUrl_ab (useAddedBy hk (type_t (\<sigma> item)) (id_t (\<sigma> item))) of
            Some url \<Rightarrow>
              if viewType \<noteq> LAYOUT_LIST c \<and> url \<noteq> '''' then Some (isImageLoaded, url)
              else None
          | None \<Rightarrow> None),
       icon_o =
         (if viewType \<noteq> LAYOUT_LIST c
             \<and> \<not> truthy (imageUrl_ab (useAddedBy hk (type_t (\<sigma> item)) (id_t (\<sigma> item))))
          then Some (icon_ab (useAddedBy hk (type_t (\<sigma> item)) (id_t (\<sigma> item))))
          else None),
       name_o = text_ab (useAddedBy hk (type_t (\<sigma> item)) (id_t (\<sigma> item)))\<rparr>,
      \<sigma>)"
  by (simp add: AuthorField_component_def run_get_prop Let_def)

lemma run_Preview_component:
  "run_state (Preview_component c hk viewType item) \<sigma> =
     (\<lparr>settings_o = usePatternSettings hk,
       className_o = ''page-templates-preview-field is-viewtype-'' @ viewType,
       backgroundColor_o =
         (case useGlobalStyle hk ''color.background'' of
            None \<Rightarrow> ''white''
          | Some colour \<Rightarrow> colour),
       blocks_o =
         (if viewType = LAYOUT_LIST c \<and> parse hk (content_raw (\<sigma> item)) \<noteq> []
          then Some (parse hk (content_raw (\<sigma> item))) else None),
       button_o =
         (if viewType \<noteq> LAYOUT_LIST c
          then Some
            \<lparr>onClick_b =
               useLink hk [''postId'' \<mapsto> Str (id_t (\<sigma> item)),
                           ''postType'' \<mapsto> Str (type_t (\<sigma> item)),
                           ''canvas'' \<mapsto> Str ''edit''],
             aria_label_b =
               (case title_rendered (\<sigma> item) of
                  Some t \<Rightarrow> if t \<noteq> '''' then Aria_rendered t else Aria_item_title
                | None \<Rightarrow> Aria_item_title),
             empty_text_b =
               (if parse hk (content_raw (\<sigma> item)) = []
                then Some (if type_t (\<sigma> item) = TEMPLATE_POST_TYPE c
                           then ''Empty template'' else ''Empty template part'')
                else None),
             blocks_b =
               (if parse hk (content_raw (\<sigma> item)) = [] then None
                else Some (parse hk (content_raw (\<sigma> item))))\<rparr>
          else None)\<rparr>,
      \<sigma>)"
  by (simp add: Preview_component_def run_get_prop Let_def)

lemma run_onSelectionChange_st:
  "run_state (onSelectionChange_st c params view items h) \<sigma> =
     (onSelectionChange c params view (map \<sigma> items) h, \<sigma>)"
proof (cases items)
  case Nil
  then show ?thesis
    by (simp add: onSelectionChange_st_def onSelectionChange_def)
next
  case (Cons item rest)
  then show ?thesis
    by (cases rest) (simp_all add: onSelectionChange_st_def onSelectionChange_def run_get_prop)
qed

lemma run_onActionPerformed_st:
  "run_state (onActionPerformed_st actionId items h) \<sigma> =
     (onActionPerformed actionId (map \<sigma> items) h, \<sigma>)"
  by (cases items) (simp_all add: onActionPerformed_st_def onActionPerformed_def run_get_prop)

subsection \<open>The field descriptors\<close>

lemma map_id_fields:
  "map id_f (fields c postType as viewType) =
     (if postType = TEMPLATE_POST_TYPE c
      then [''preview'', ''title'', ''description'', ''author'']
      else [''preview'', ''title'', ''author''])"
  by (simp add: fields_def Let_def preview_field_def title_field_def
      description_field_def author_field_def)

text \<open>
  C3. For every post type, author list and view type, the ids of the derived field
  descriptors are pairwise distinct.
\<close>

theorem fields_ids_distinct:
  "distinct (map id_f (fields c postType as viewType))"
  by (simp add: map_id_fields)

lemma filter_id_fields:
  "filter (\<lambda>f. id_f f = ''title'') (fields c postType as viewType) =
     [title_field c postType viewType]"
  "filter (\<lambda>f. id_f f = ''author'') (fields c postType as viewType) =
     [author_field c as viewType]"
  "filter (\<lambda>f. id_f f = ''preview'') (fields c postType as viewType) =
     [preview_field viewType]"
  by (simp_all add: fields_def Let_def preview_field_def title_field_def
      description_field_def author_field_def)

text \<open>
  C6. Each record is rendered as a title, an author and a live preview. For every
  post type, author list and view type, the derived field list has exactly one
  descriptor with id \<open>title\<close>, one with id \<open>author\<close> and one with id \<open>preview\<close>.
  Their accessors give the record's rendered title and its author text, and their
  renderers give the \<open>Title\<close>, \<open>AuthorField\<close> and \<open>Preview\<close> elements of the record
  with the view type. On a record of the store, the \<open>Title\<close> component shows the
  decoded rendered title (or \<open>(no title)\<close>), as text in the list layout and as a
  link to the record's editor otherwise; the \<open>AuthorField\<close> component shows the
  name that \<open>useAddedBy\<close> gives for the record's type and id; the \<open>Preview\<close>
  component shows the preview of the blocks parsed from the record's raw content,
  in the container in the list layout and in the button otherwise, and the text for
  an empty template when there are no blocks.
\<close>

theorem fields_render_title_author_preview:
  "filter (\<lambda>f. id_f f = ''title'') (fields c postType as viewType) =
     [title_field c postType viewType]
   \<and> filter (\<lambda>f. id_f f = ''author'') (fields c postType as viewType) =
     [author_field c as viewType]
   \<and> filter (\<lambda>f. id_f f = ''preview'') (fields c postType as viewType) =
     [preview_field viewType]
   \<and> ''title'' \<in> set (map id_f (fields c postType as viewType))
   \<and> ''author'' \<in> set (map id_f (fields c postType as viewType))
   \<and> ''preview'' \<in> set (map id_f (fields c postType as viewType))
   \<and> getValue (title_field c postType viewType) = Some title_rendered
   \<and> getValue (author_field c as viewType) = Some (\<lambda>item. Some (author_text item))
   \<and> render (title_field c postType viewType) (\<sigma> item) = Title (\<sigma> item) viewType
   \<and> render (author_field c as viewType) (\<sigma> item) = AuthorField viewType (\<sigma> item)
   \<and> render (preview_field viewType) (\<sigma> item) = Preview (\<sigma> item) viewType
   \<and> fst (run_state (Title_component c hk viewType item) \<sigma>) =
       (if viewType = LAYOUT_LIST c
        then Title_text (or_no_title (decodeEntities hk (title_rendered (\<sigma> item))))
        else Title_link
               \<lparr>params_l = [''postId'' \<mapsto> Str (id_t (\<sigma> item)),
                            ''postType'' \<mapsto> Str (type_t (\<sigma> item)),
                            ''canvas'' \<mapsto> Str ''edit''],
                state_l = (if type_t (\<sigma> item) = TEMPLATE_PART_POST_TYPE c
                           then Some ''/wp_template_part/all'' else None)\<rparr>
               (or_no_title (decodeEntities hk (title_rendered (\<sigma> item)))))
   \<and> name_o (fst (run_state (AuthorField_component c hk isImageLoaded viewType item) \<sigma>)) =
       text_ab (useAddedBy hk (type_t (\<sigma> item)) (id_t (\<sigma> item)))
   \<and> blocks_o (fst (run_state (Preview_component c hk viewType item) \<sigma>)) =
       (if viewType = LAYOUT_LIST c \<and> parse hk (content_raw (\<sigma> item)) \<noteq> []
        then Some (parse hk (content_raw (\<sigma> item))) else None)
   \<and> map_option blocks_b (button_o (fst (run_state (Preview_component c hk viewType item) \<sigma>))) =
       (if viewType = LAYOUT_LIST c then None
        else Some (if parse hk (content_raw (\<sigma> item)) = [] then None
                   else Some (parse hk (content_raw (\<sigma> item)))))
   \<and> map_option empty_text_b
         (button_o (fst (run_state (Preview_component c hk viewType item) \<sigma>))) =
       (if viewType = LAYOUT_LIST c then None
        else Some (if parse hk (content_raw (\<sigma> item)) = []
                   then Some (if type_t (\<sigma> item) = TEMPLATE_POST_TYPE c
                              then ''Empty template'' else ''Empty template part'')
                   else None))"
proof -
  have ids: "''title'' \<in> set (map id_f (fields c postType as viewType))
      \<and> ''author'' \<in> set (map id_f (fields c postType as viewType))
      \<and> ''preview'' \<in> set (map id_f (fields c postType as viewType))"
    by (simp add: map_id_fields)
  have accessors: "getValue (title_field c postType viewType) = Some title_rendered
      \<and> getValue (author_field c as viewType) = Some (\<lambda>item. Some (author_text item))"
    by (simp add: title_field_def author_field_def)
  have renderers: "render (title_field c postType viewType) (\<sigma> item) = Title (\<sigma> item) viewType
      \<and> render (author_field c as viewType) (\<sigma> item) = AuthorField viewType (\<sigma> item)
      \<and> render (preview_field viewType) (\<sigma> item) = Preview (\<sigma> item) viewType"
    by (simp add: title_field_def author_field_def preview_field_def)
  have title: "fst (run_state (Title_component c hk viewType item) \<sigma>) =
       (if viewType = LAYOUT_LIST c
        then Title_text (or_no_title (decodeEntities hk (title_rendered (\<sigma> item))))
        else Title_link
               \<lparr>params_l = [''postId'' \<mapsto> Str (id_t (\<sigma> item)),
                            ''postType'' \<mapsto> Str (type_t (\<sigma> item)),
                            ''canvas'' \<mapsto> Str ''edit''],
                state_l = (if type_t (\<sigma> item) = TEMPLATE_PART_POST_TYPE c
                           then Some ''/wp_template_part/all'' else None)\<rparr>
               (or_no_title (decodeEntities hk (title_rendered (\<sigma> item)))))"
    by (simp only: run_Title_component fst_conv)
  have author: "name_o (fst (run_state (AuthorField_component c hk isImageLoaded viewType item) \<sigma>)) =
       text_ab (useAddedBy hk (type_t (\<sigma> item)) (id_t (\<sigma> item)))"
    by (simp add: run_AuthorField_component)
  have preview: "blocks_o (fst (run_state (Preview_component c hk viewType item) \<sigma>)) =
       (if viewType = LAYOUT_LIST c \<and> parse hk (content_raw (\<sigma> item)) \<noteq> []
        then Some (parse hk (content_raw (\<sigma> item))) else None)"
    by (simp add: run_Preview_component)
  have button: "map_option blocks_b
         (button_o (fst (run_state (Preview_component c hk viewType item) \<sigma>))) =
       (if viewType = LAYOUT_LIST c then None
        else Some (if parse hk (content_raw (\<sigma> item)) = [] then None
                   else Some (parse hk (content_raw (\<sigma> item)))))"
    by (simp add: run_Preview_component)
  have empty: "map_option empty_text_b
         (button_o (fst (run_state (Preview_component c hk viewType item) \<sigma>))) =
       (if viewType = LAYOUT_LIST c then None
        else Some (if parse hk (content_raw (\<sigma> item)) = []
                   then Some (if type_t (\<sigma> item) = TEMPLATE_POST_TYPE c
                              then ''Empty template'' else ''Empty template part'')
                   else None))"
    by (simp add: run_Preview_component)
  from filter_id_fields [of c postType as viewType] ids accessors renderers
    title author preview button empty
  show ?thesis
    by (simp only: simp_thms)
qed

theorem fields_render_title_author_preview_witness:
  "map id_f (filter (\<lambda>f. id_f f = ''title'') (fields sample_constants ''wp_template'' [] ''list''))
     = [''title'']
   \<and> fst (run_state (Title_component sample_constants sample_hooks ''list'' 0) sample_store)
       = Title_text ''Index''
   \<and> name_o (fst (run_state (AuthorField_component sample_constants sample_hooks False ''list'' 0)
        sample_store)) = ''Theme''
   \<and> blocks_o (fst (run_state (Preview_component sample_constants sample_hooks ''list'' 0)
        sample_store)) = Some [''<!-- wp:post-content /-->'']"
proof -
  note t = fields_render_title_author_preview
    [of sample_constants "''wp_template''" "[]" "''list''" sample_store 0 sample_hooks False]
  have list: "LAYOUT_LIST sample_constants = ''list''"
    by (simp add: sample_constants_def)
  have item: "sample_store 0 = sample_template"
    by (simp add: sample_store_def)
  from t have "map id_f (filter (\<lambda>f. id_f f = ''title'')
      (fields sample_constants ''wp_template'' [] ''list''))
      = map id_f [title_field sample_constants ''wp_template'' ''list'']"
    by (simp only:)
  then have a: "map id_f (filter (\<lambda>f. id_f f = ''title'')
      (fields sample_constants ''wp_template'' [] ''list'')) = [''title'']"
    by (simp add: title_field_def)
  from t have "fst (run_state (Title_component sample_constants sample_hooks ''list'' 0)
      sample_store) =
      Title_text (or_no_title (decodeEntities sample_hooks (title_rendered (sample_store 0))))"
    by (simp add: list)
  then have b: "fst (run_state (Title_component sample_constants sample_hooks ''list'' 0)
      sample_store) = Title_text ''Index''"
    by (simp add: item sample_template_def sample_hooks_def or_no_title_def)
  from t have "name_o (fst (run_state
      (AuthorField_component sample_constants sample_hooks False ''list'' 0) sample_store)) =
      text_ab (useAddedBy sample_hooks (type_t (sample_store 0)) (id_t (sample_store 0)))"
    by blast
  then have d: "name_o (fst (run_state
      (AuthorField_component sample_constants sample_hooks False ''list'' 0) sample_store))
      = ''Theme''"
    by (simp add: sample_hooks_def)
  from t have "blocks_o (fst (run_state (Preview_component sample_constants sample_hooks ''list'' 0)
      sample_store)) =
      (if ''list'' = LAYOUT_LIST sample_constants
          \<and> parse sample_hooks (content_raw (sample_store 0)) \<noteq> []
       then Some (parse sample_hooks (content_raw (sample_store 0))) else None)"
    by blast
  then have e: "blocks_o (fst (run_state (Preview_component sample_constants sample_hooks ''list'' 0)
      sample_store)) = Some [''<!-- wp:post-content /-->'']"
    by (simp add: list item sample_template_def sample_hooks_def)
  from a b d e show ?thesis
    by blast
qed

text \<open>
  C8. The derived field list has a descriptor with id \<open>description\<close> exactly when the
  post type is the template post type. For the template-part post type, which is a
  different string, there is none.
\<close>

theorem fields_description_iff_template:
  "(''description'' \<in> set (map id_f (fields c postType as viewType)))
     = (postType = TEMPLATE_POST_TYPE c)
   \<and> (TEMPLATE_PART_POST_TYPE c \<noteq> TEMPLATE_POST_TYPE c \<longrightarrow>
        ''description'' \<notin> set (map id_f (fields c (TEMPLATE_PART_POST_TYPE c) as viewType)))"
  by (simp add: map_id_fields)

theorem fields_description_iff_template_witness:
  "TEMPLATE_PART_POST_TYPE sample_constants \<noteq> TEMPLATE_POST_TYPE sample_constants
   \<and> ''description'' \<in> set (map id_f (fields sample_constants ''wp_template'' [] ''grid''))
   \<and> ''description'' \<notin> set (map id_f (fields sample_constants ''wp_template_part'' [] ''grid''))"
proof -
  have ne: "TEMPLATE_PART_POST_TYPE sample_constants \<noteq> TEMPLATE_POST_TYPE sample_constants"
    by (simp add: sample_constants_def)
  have tp: "TEMPLATE_POST_TYPE sample_constants = ''wp_template''"
    and tpp: "TEMPLATE_PART_POST_TYPE sample_constants = ''wp_template_part''"
    by (simp_all add: sample_constants_def)
  from fields_description_iff_template [of sample_constants "''wp_template''" "[]" "''grid''"]
  have "''description'' \<in> set (map id_f (fields sample_constants ''wp_template'' [] ''grid''))"
    by (simp add: tp)
  moreover
  from fields_description_iff_template [of sample_constants "''wp_template_part''" "[]" "''grid''"] ne
  have "''description'' \<notin> set (map id_f (fields sample_constants ''wp_template_part'' [] ''grid''))"
    by (simp add: tpp)
  ultimately show ?thesis using ne by blast
qed

subsection \<open>The rendered data view\<close>

text \<open>
  C2. For every record list, view and utility \<open>filterSortAndPaginate\<close>, the \<open>data\<close>
  and \<open>paginationInfo\<close> handed to the data-view component are the two components of
  the utility's result on the records, the view and the derived field list. The
  component adds no filtering, sorting or pagination: with a utility that returns the
  records as they are, \<open>data\<close> is the records.
\<close>

theorem data_is_filterSortAndPaginate:
  "data_p (PageTemplatesTemplateParts c filterSortAndPaginate usePostActions postType
       records isLoadingData view)
     = fst (filterSortAndPaginate records view
              (fields c postType (authors records) (type_v view)))
   \<and> paginationInfo_p (PageTemplatesTemplateParts c filterSortAndPaginate usePostActions
       postType records isLoadingData view)
     = snd (filterSortAndPaginate records view
              (fields c postType (authors records) (type_v view)))
   \<and> data_p (PageTemplatesTemplateParts c (\<lambda>rs v fs. (rs, length fs)) usePostActions
       postType records isLoadingData view) = records"
  by (simp add: PageTemplatesTemplateParts_def Let_def split: prod.split)

text \<open>
  C5. The fixed list of action ids contains \<open>edit-post\<close>, \<open>rename-template\<close>,
  \<open>delete-template\<close> and \<open>view-post-revisions\<close>, and the actions handed to the
  data-view component are what the post-actions hook returns for the handler
  \<open>onActionPerformed\<close> and that list.
\<close>

theorem actions_wired_to_usePostActions:
  "''edit-post'' \<in> set TEMPLATE_ACTIONS
   \<and> ''rename-template'' \<in> set TEMPLATE_ACTIONS
   \<and> ''delete-template'' \<in> set TEMPLATE_ACTIONS
   \<and> ''view-post-revisions'' \<in> set TEMPLATE_ACTIONS
   \<and> actions_p (PageTemplatesTemplateParts c filterSortAndPaginate usePostActions postType
        records isLoadingData view)
      = usePostActions onActionPerformed TEMPLATE_ACTIONS"
  by (simp add: PageTemplatesTemplateParts_def Let_def TEMPLATE_ACTIONS_def split: prod.split)

subsection \<open>Changing the view\<close>

lemma spread_config_own:
  "key \<in> dom (defaultConfigPerViewType c) \<Longrightarrow>
     Layout_config (spread_config (get_defaultConfigPerViewType c key)) =
       get_defaultConfigPerViewType c key"
  by (auto simp: spread_config_def get_defaultConfigPerViewType_def)

text \<open>
  C9. When the new view's type differs from the current one, the view that is stored
  is the new view with its per-layout configuration replaced by a copy of the entry
  of \<open>defaultConfigPerViewType\<close> for the new type (for a type with an entry, the stored
  configuration is that entry), and the current parameters with \<open>layout\<close> set to the
  new type are pushed to the history. When the type is the same, the new view is
  stored as given and the history stays as it is.
\<close>

theorem onChangeView_cases:
  "(type_v newView \<noteq> type_v view \<longrightarrow>
      fst (onChangeView c params view newView h) =
        newView\<lparr>layout :=
                  Layout_config
                    (spread_config (get_defaultConfigPerViewType c (type_v newView)))\<rparr>
      \<and> (type_v newView \<in> dom (defaultConfigPerViewType c) \<longrightarrow>
           layout (fst (onChangeView c params view newView h)) =
             get_defaultConfigPerViewType c (type_v newView))
      \<and> snd (onChangeView c params view newView h) =
          h @ [params(''layout'' \<mapsto> Str (type_v newView))])
   \<and> (type_v newView = type_v view \<longrightarrow>
        onChangeView c params view newView h = (newView, h))"
  by (auto simp: onChangeView_def spread_config_own)

theorem onChangeView_cases_witness:
  "type_v ((DEFAULT_VIEW sample_constants)\<lparr>type_v := ''table''\<rparr>)
     \<noteq> type_v (DEFAULT_VIEW sample_constants)
   \<and> type_v ((DEFAULT_VIEW sample_constants)\<lparr>type_v := ''table''\<rparr>)
       \<in> dom (defaultConfigPerViewType sample_constants)
   \<and> layout (fst (onChangeView sample_constants [''activeView'' \<mapsto> Str ''all'']
        (DEFAULT_VIEW sample_constants)
        ((DEFAULT_VIEW sample_constants)\<lparr>type_v := ''table''\<rparr>) []))
      = Layout_config
          \<lparr>primaryField = Some ''title'', mediaField = None, columnFields = None\<rparr>
   \<and> snd (onChangeView sample_constants [''activeView'' \<mapsto> Str ''all'']
        (DEFAULT_VIEW sample_constants)
        ((DEFAULT_VIEW sample_constants)\<lparr>type_v := ''table''\<rparr>) [])
      = [[''activeView'' \<mapsto> Str ''all'', ''layout'' \<mapsto> Str ''table'']]
   \<and> type_v ((DEFAULT_VIEW sample_constants)\<lparr>page := 2\<rparr>)
       = type_v (DEFAULT_VIEW sample_constants)
   \<and> onChangeView sample_constants [''activeView'' \<mapsto> Str ''all'']
        (DEFAULT_VIEW sample_constants) ((DEFAULT_VIEW sample_constants)\<lparr>page := 2\<rparr>) []
      = ((DEFAULT_VIEW sample_constants)\<lparr>page := 2\<rparr>, [])"
proof -
  let ?p = "[''activeView'' \<mapsto> Str ''all'']"
  let ?v = "DEFAULT_VIEW sample_constants"
  let ?t = "(DEFAULT_VIEW sample_constants)\<lparr>type_v := ''table''\<rparr>"
  let ?s = "(DEFAULT_VIEW sample_constants)\<lparr>page := 2\<rparr>"
  have differs: "type_v ?t \<noteq> type_v ?v"
    by (simp add: DEFAULT_VIEW_def sample_constants_def)
  have table: "defaultConfigPerViewType sample_constants (type_v ?t)
      = Some \<lparr>primaryField = Some ''title'', mediaField = None, columnFields = None\<rparr>"
    by (simp add: defaultConfigPerViewType_def sample_constants_def)
  then have known: "type_v ?t \<in> dom (defaultConfigPerViewType sample_constants)"
    by (simp only: domIff) simp
  from table have table': "get_defaultConfigPerViewType sample_constants (type_v ?t)
      = Layout_config
          \<lparr>primaryField = Some ''title'', mediaField = None, columnFields = None\<rparr>"
    by (rule get_defaultConfigPerViewType_own)
  have same: "type_v ?s = type_v ?v"
    by simp
  note change = onChangeView_cases [of ?t ?v sample_constants ?p "[]"]
  note keep = onChangeView_cases [of ?s ?v sample_constants ?p "[]"]
  from change differs known
  have "layout (fst (onChangeView sample_constants ?p ?v ?t [])) =
      get_defaultConfigPerViewType sample_constants (type_v ?t)"
    by blast
  with table'
  have l: "layout (fst (onChangeView sample_constants ?p ?v ?t [])) =
      Layout_config
        \<lparr>primaryField = Some ''title'', mediaField = None, columnFields = None\<rparr>"
    by (simp only:)
  from change differs
  have "snd (onChangeView sample_constants ?p ?v ?t []) =
      [] @ [?p(''layout'' \<mapsto> Str (type_v ?t))]"
    by blast
  then have p: "snd (onChangeView sample_constants ?p ?v ?t []) =
      [[''activeView'' \<mapsto> Str ''all'', ''layout'' \<mapsto> Str ''table'']]"
    by simp
  from keep same
  have k: "onChangeView sample_constants ?p ?v ?s [] = (?s, [])"
    by blast
  from differs known l p same k show ?thesis
    by blast
qed

subsection \<open>The records are only read\<close>

text \<open>
  C7. The fetched records are read-only for this file. With the records as objects
  in a store, each operation of the file that receives a record leaves the store as
  it found it, for every store and every argument: the derivation of \<open>authors\<close>, the
  \<open>getValue\<close> accessors of the title and author fields, the renderer of the
  description field, the components \<open>Title\<close>, \<open>AuthorField\<close> and \<open>Preview\<close>, and the
  handlers \<open>onSelectionChange\<close> and \<open>onActionPerformed\<close> (also when it throws). So no
  record, and none of \<open>id\<close>, \<open>type\<close>, \<open>title.rendered\<close>, \<open>description\<close>,
  \<open>content.raw\<close>, \<open>author_text\<close>, is written.
\<close>

theorem records_only_read:
  "snd (run_state (authors_st records) \<sigma>) = \<sigma>
   \<and> snd (run_state (getValue_title_st item) \<sigma>) = \<sigma>
   \<and> snd (run_state (getValue_author_st item) \<sigma>) = \<sigma>
   \<and> snd (run_state (render_description_st c viewType item) \<sigma>) = \<sigma>
   \<and> snd (run_state (Title_component c hk viewType item) \<sigma>) = \<sigma>
   \<and> snd (run_state (AuthorField_component c hk isImageLoaded viewType item) \<sigma>) = \<sigma>
   \<and> snd (run_state (Preview_component c hk viewType item) \<sigma>) = \<sigma>
   \<and> snd (run_state (onSelectionChange_st c params view items h) \<sigma>) = \<sigma>
   \<and> snd (run_state (onActionPerformed_st actionId items h) \<sigma>) = \<sigma>"
proof -
  have "snd (run_state (authors_st records) \<sigma>) = \<sigma>"
    by (simp only: run_authors_st snd_conv)
  moreover have "snd (run_state (getValue_title_st item) \<sigma>) = \<sigma>"
    by (simp only: run_getValue_title_st snd_conv)
  moreover have "snd (run_state (getValue_author_st item) \<sigma>) = \<sigma>"
    by (simp only: run_getValue_author_st snd_conv)
  moreover have "snd (run_state (render_description_st c viewType item) \<sigma>) = \<sigma>"
    by (simp only: run_render_description_st snd_conv)
  moreover have "snd (run_state (Title_component c hk viewType item) \<sigma>) = \<sigma>"
    by (simp only: run_Title_component snd_conv)
  moreover
  have "snd (run_state (AuthorField_component c hk isImageLoaded viewType item) \<sigma>) = \<sigma>"
    by (simp only: run_AuthorField_component snd_conv)
  moreover have "snd (run_state (Preview_component c hk viewType item) \<sigma>) = \<sigma>"
    by (simp only: run_Preview_component snd_conv)
  moreover have "snd (run_state (onSelectionChange_st c params view items h) \<sigma>) = \<sigma>"
    by (simp only: run_onSelectionChange_st snd_conv)
  moreover have "snd (run_state (onActionPerformed_st actionId items h) \<sigma>) = \<sigma>"
    by (simp only: run_onActionPerformed_st snd_conv)
  ultimately show ?thesis
    by (simp only: simp_thms)
qed

theorem records_only_read_witness:
  "run_state (authors_st (Some [0, 1, 2])) sample_store
     = ([\<lparr>value_a = ''Theme'', label = ''Theme''\<rparr>], sample_store)
   \<and> run_state (onActionPerformed_st ''edit-post'' [3] []) sample_store
     = (Inr [[''postId'' \<mapsto> Str ''theme//index'', ''postType'' \<mapsto> Str ''wp_template'',
              ''canvas'' \<mapsto> Str ''edit'']], sample_store)
   \<and> run_state (onActionPerformed_st ''edit-post'' [] []) sample_store
     = (Inl TypeError, sample_store)"
proof -
  have a: "fst (run_state (authors_st (Some [0, 1, 2])) sample_store)
      = [\<lparr>value_a = ''Theme'', label = ''Theme''\<rparr>]"
    by (simp add: run_authors_st authors_def authorsSet_def Set_add_def sample_store_def
        sample_template_def)
  have b: "fst (run_state (onActionPerformed_st ''edit-post'' [3] []) sample_store)
      = Inr [[''postId'' \<mapsto> Str ''theme//index'', ''postType'' \<mapsto> Str ''wp_template'',
              ''canvas'' \<mapsto> Str ''edit'']]"
    by (simp add: run_onActionPerformed_st onActionPerformed_def sample_store_def
        sample_template_def)
  have d: "fst (run_state (onActionPerformed_st ''edit-post'' [] []) sample_store)
      = Inl TypeError"
    by (simp add: run_onActionPerformed_st onActionPerformed_def)
  note t1 = records_only_read [where records = "Some [0, 1, 2]" and \<sigma> = sample_store
      and item = 0 and c = sample_constants and viewType = "''list''" and hk = sample_hooks
      and isImageLoaded = False and params = Map.empty
      and view = "DEFAULT_VIEW sample_constants"
      and actionId = "''edit-post''" and items = "[3]" and h = "[]"]
  note t2 = records_only_read [where records = None and \<sigma> = sample_store
      and item = 0 and c = sample_constants and viewType = "''list''" and hk = sample_hooks
      and isImageLoaded = False and params = Map.empty
      and view = "DEFAULT_VIEW sample_constants"
      and actionId = "''edit-post''" and items = "[]" and h = "[]"]
  from t1 have a': "snd (run_state (authors_st (Some [0, 1, 2])) sample_store) = sample_store"
    by (rule conjunct1)
  from t1 have b': "snd (run_state (onActionPerformed_st ''edit-post'' [3] []) sample_store)
      = sample_store"
    by blast
  from t2 have d': "snd (run_state (onActionPerformed_st ''edit-post'' [] []) sample_store)
      = sample_store"
    by blast
  from a a' b b' d d' show ?thesis
    by (simp only: prod_eq_iff fst_conv snd_conv simp_thms)
qed

end
